theory Spec2Isabelle
  imports Main
begin

section \<open>Values of the host language\<close>

text \<open>
  \<^verbatim>\<open>x || d\<close> on a value \<open>x\<close> of type \<^verbatim>\<open>string | undefined\<close>: the right operand is
  taken when the left one is falsy, that is when it is \<^verbatim>\<open>undefined\<close> or the empty string.
\<close>

definition js_or :: "string option \<Rightarrow> string \<Rightarrow> string" where
  "js_or x d = (case x of None \<Rightarrow> d | Some s \<Rightarrow> if s = [] then d else s)"

text \<open>\<^verbatim>\<open>Array.prototype.join\<close> on an array of strings.\<close>

fun join :: "string \<Rightarrow> string list \<Rightarrow> string" where
  "join sep [] = []"
| "join sep [x] = x"
| "join sep (x # y # ys) = x @ sep @ join sep (y # ys)"

section \<open>Resource declarations\<close>

type_synonym construct_id = string

text \<open>
  A string handed to the provisioning engine is either known when the stack is assembled or
  an attribute of a declared resource that only the deployment fixes: the address of a
  secret, the address of a function URL.
\<close>

datatype attr = Plain string | SecretArn construct_id | UrlOf construct_id

record secret_props =
  secretName :: string
  secret_description :: string

datatype principal = ServicePrincipal string

datatype managed_policy = AwsManagedPolicyName string

record policy_statement =
  actions :: "string list"
  resources :: "attr list"

record role_props =
  assumedBy :: principal
  roleName :: string
  managedPolicies :: "managed_policy list"

text \<open>The role object: its properties and the statements added to its policy so far.\<close>

record role_object = role_props +
  statements :: "policy_statement list"

text \<open>A reference to a role held by the code: where it lives in the stack, and its properties.\<close>

record role_ref =
  role_id :: construct_id
  role_of :: role_props

datatype runtime = PYTHON_3_14

datatype docker_image = BundlingImage runtime

record bundling_options =
  bundling_image :: docker_image
  command :: "string list"

text \<open>\<^verbatim>\<open>Code.fromAsset\<close>: a directory, here given relative to the directory of the source file.\<close>

datatype code = FromAsset string bundling_options

datatype duration = Minutes nat

record function_props =
  runtime :: runtime
  handler :: string
  role :: "role_ref option"
  functionName :: string
  code :: code
  timeout :: duration
  memorySize :: nat
  fn_description :: string
  environment :: "(string \<times> attr) list"

record function_ref =
  fn_id :: construct_id
  fn_of :: function_props

datatype auth_type = AWS_IAM | NONE

datatype http_method = GET | PUT | HEAD | POST | DELETE | PATCH | OPTIONS | ALL

record cors_options =
  allowedOrigins :: "string list"
  allowedMethods :: "http_method list"

record function_url_options =
  authType :: auth_type
  cors :: cors_options

record function_url = function_url_options +
  url_function :: construct_id

record cron_options =
  minute :: "string option"
  hour :: "string option"
  day :: "string option"
  month :: "string option"
  year :: "string option"
  weekDay :: "string option"

datatype schedule = Cron cron_options

datatype rule_target = LambdaFunction construct_id

record rule_props =
  schedule :: schedule
  targets :: "rule_target list"

datatype construct =
    Secret secret_props
  | Role role_object
  | Function function_props
  | FunctionUrl function_url
  | Rule rule_props
  | CfnOutput attr

text \<open>
  The stack under construction: the constructs declared in it, in declaration order, each
  under its identifier.
\<close>

record stack =
  stack_id :: string
  children :: "(construct_id \<times> construct) list"

definition new_Stack :: "string \<Rightarrow> stack" where
  "new_Stack sid = \<lparr>stack_id = sid, children = []\<rparr>"

definition add_child :: "construct_id \<Rightarrow> construct \<Rightarrow> stack \<Rightarrow> stack" where
  "add_child cid c s = s\<lparr>children := children s @ [(cid, c)]\<rparr>"

definition new_Secret :: "construct_id \<Rightarrow> secret_props \<Rightarrow> stack \<Rightarrow> construct_id \<times> stack" where
  "new_Secret cid p s = (cid, add_child cid (Secret p) s)"

definition secretArn :: "construct_id \<Rightarrow> attr" where
  "secretArn sec = SecretArn sec"

definition new_Role :: "construct_id \<Rightarrow> role_props \<Rightarrow> stack \<Rightarrow> role_ref \<times> stack" where
  "new_Role cid p s =
     (\<lparr>role_id = cid, role_of = p\<rparr>,
      add_child cid (Role (role_props.extend p \<lparr>statements = []\<rparr>)) s)"

text \<open>
  \<^verbatim>\<open>role.addToPolicy(statement)\<close> changes the role object that the stack holds: the
  statement is appended to the statements of the role stored under the reference's identifier.
\<close>

fun add_statement :: "policy_statement \<Rightarrow> construct \<Rightarrow> construct" where
  "add_statement st (Role r) = Role (r\<lparr>statements := statements r @ [st]\<rparr>)"
| "add_statement st c = c"

definition addToPolicy :: "role_ref \<Rightarrow> policy_statement \<Rightarrow> stack \<Rightarrow> stack" where
  "addToPolicy r st s =
     s\<lparr>children := map (\<lambda>(cid, c). if cid = role_id r then (cid, add_statement st c) else (cid, c))
                        (children s)\<rparr>"

text \<open>
  The function keeps the role passed in its properties as \<^verbatim>\<open>fn.role\<close>; the stack
  definition always passes one.
\<close>

definition new_Function :: "construct_id \<Rightarrow> function_props \<Rightarrow> stack \<Rightarrow> function_ref \<times> stack" where
  "new_Function cid p s = (\<lparr>fn_id = cid, fn_of = p\<rparr>, add_child cid (Function p) s)"

text \<open>
  \<^verbatim>\<open>secret.grantRead(fn)\<close> gives the principal of the function, its role, read access to
  the secret: the provisioning library appends to the policy of that role a statement with
  the two reading actions of the secret store on the address of the secret. The role is the
  object the stack holds, the same one \<^verbatim>\<open>addToPolicy\<close> changes.
\<close>

definition grantRead :: "construct_id \<Rightarrow> function_ref \<Rightarrow> stack \<Rightarrow> stack" where
  "grantRead sec f s =
     (case role (fn_of f) of
        None \<Rightarrow> s
      | Some r \<Rightarrow>
          addToPolicy r
            \<lparr>actions = [''secretsmanager:GetSecretValue'', ''secretsmanager:DescribeSecret''],
             resources = [secretArn sec]\<rparr> s)"

text \<open>\<^verbatim>\<open>fn.addFunctionUrl(options)\<close> declares a function URL in the scope of the function.\<close>

definition addFunctionUrl :: "function_ref \<Rightarrow> function_url_options \<Rightarrow> stack \<Rightarrow> construct_id \<times> stack" where
  "addFunctionUrl f opts s =
     (let cid = fn_id f @ ''/FunctionUrl''
      in (cid, add_child cid
                 (FunctionUrl (function_url_options.extend opts \<lparr>url_function = fn_id f\<rparr>)) s))"

definition url :: "construct_id \<Rightarrow> attr" where
  "url u = UrlOf u"

definition new_Rule :: "construct_id \<Rightarrow> rule_props \<Rightarrow> stack \<Rightarrow> stack" where
  "new_Rule cid p s = add_child cid (Rule p) s"

definition new_CfnOutput :: "construct_id \<Rightarrow> attr \<Rightarrow> stack \<Rightarrow> stack" where
  "new_CfnOutput cid v s = add_child cid (CfnOutput v) s"

section \<open>The packaging script\<close>

text \<open>
  The steps of the script, as the string literals of the source; the backslash of the last
  step is written by its character code.
\<close>

definition bundling_steps :: "string list" where
  "bundling_steps =
     [''set -euo pipefail'',
      ''pip install -r requirements.txt --no-cache-dir --platform manylinux2014_x86_64 --only-binary=:all: -t /asset-output'',
      ''cp -au *.py requirements.txt /asset-output'',
      ''find /asset-output -name '__pycache__' -prune -exec rm -rf {} +'',
      ''find /asset-output -name '*.pyc' -delete'',
      ''find /asset-output -type d '' @ [CHR 0x5C] @ ''( -name 'tests' -o -name 'test' '' @ [CHR 0x5C]
        @ '') -prune -exec rm -rf {} + || true'']"

definition bundling_script :: string where
  "bundling_script = join '' && '' bundling_steps"

definition bundling_command :: "string list" where
  "bundling_command = [''bash'', ''-c'', bundling_script]"

section \<open>The stack definition\<close>

record stack_config =
  githubToken :: string
  discordWebhookUrl :: string
  googleWorkloadIdentityAudience :: string
  googleWorkloadIdentityServiceAccount :: string

definition BlueprintMetricsCdkStack :: "string \<Rightarrow> stack_config \<Rightarrow> stack" where
  "BlueprintMetricsCdkStack sid props =
     (let s0 = new_Stack sid;
          (metricsConfigSecret, s1) =
             new_Secret ''MetricsConfigSecret''
               \<lparr>secretName = ''blueprint-metrics-config'',
                secret_description = ''Configuration for Blueprint Metrics Lambda''\<rparr> s0;
          (executionRole, s2) =
             new_Role ''BlueprintMetricsExecutionRole''
               \<lparr>assumedBy = ServicePrincipal ''lambda.amazonaws.com'',
                roleName = ''bp-metrics-role'',
                managedPolicies =
                  [AwsManagedPolicyName ''service-role/AWSLambdaBasicExecutionRole'']\<rparr> s1;
          s3 = addToPolicy executionRole
                 \<lparr>actions = [''sts:GetCallerIdentity''], resources = [Plain ''*'']\<rparr> s2;
          (fn, s4) =
             new_Function ''BlueprintMetricsFunction''
               \<lparr>runtime = PYTHON_3_14,
                handler = ''main.handler'',
                role = Some executionRole,
                functionName = ''bp-metrics-fn'',
                code = FromAsset ''../lambda''
                         \<lparr>bundling_image = BundlingImage PYTHON_3_14,
                          command = bundling_command\<rparr>,
                timeout = Minutes 5,
                memorySize = 1024,
                fn_description = ''Lambda function for Blueprint Metrics'',
                environment =
                  [(''PROD'', Plain ''true''),
                   (''METRICS_CONFIG_SECRET_ARN'', secretArn metricsConfigSecret),
                   (''DISCORD_WEBHOOK_URL'', Plain (discordWebhookUrl props)),
                   (''GITHUB_TOKEN'', Plain (githubToken props)),
                   (''GOOGLE_WORKLOADIDENTITY_AUDIENCE'',
                      Plain (googleWorkloadIdentityAudience props)),
                   (''GOOGLE_WORKLOADIDENTITY_SERVICEACCOUNT'',
                      Plain (googleWorkloadIdentityServiceAccount props))]\<rparr> s3;
          s5 = grantRead metricsConfigSecret fn s4;
          (fnUrl, s6) =
             addFunctionUrl fn
               \<lparr>authType = NONE,
                cors = \<lparr>allowedOrigins = [''*''], allowedMethods = [POST]\<rparr>\<rparr> s5;
          scheduleRule =
             Cron \<lparr>minute = Some ''0'', hour = Some ''19'', day = None, month = None,
                   year = None, weekDay = Some ''MON''\<rparr>;
          s7 = new_Rule ''WeeklyMetricsRule''
                 \<lparr>schedule = scheduleRule, targets = [LambdaFunction (fn_id fn)]\<rparr> s6;
          s8 = new_CfnOutput ''LambdaFunctionName'' (Plain (functionName (fn_of fn))) s7;
          s9 = new_CfnOutput ''LambdaExecutionRoleName''
                 (Plain (js_or (map_option (\<lambda>r. roleName (role_of r)) (role (fn_of fn))) '''')) s8;
          s10 = new_CfnOutput ''MetricsConfigSecretArn'' (secretArn metricsConfigSecret) s9;
          s11 = new_CfnOutput ''LambdaFunctionUrl'' (url fnUrl) s10
      in s11)"

section \<open>The entry point\<close>

text \<open>
  \<^verbatim>\<open>dotenv.config()\<close> adds the entries of the local environment file to the process
  environment; a variable that is already set keeps its value.
\<close>

definition dotenv_config :: "(string \<rightharpoonup> string) \<Rightarrow> (string \<rightharpoonup> string) \<Rightarrow> (string \<rightharpoonup> string)" where
  "dotenv_config file env = file ++ env"

definition config_of_env :: "(string \<rightharpoonup> string) \<Rightarrow> stack_config" where
  "config_of_env env =
     \<lparr>githubToken = js_or (env ''GITHUB_TOKEN'') '''',
      discordWebhookUrl = js_or (env ''DISCORD_WEBHOOK_URL'') '''',
      googleWorkloadIdentityAudience = js_or (env ''GOOGLE_WORKLOADIDENTITY_AUDIENCE'') '''',
      googleWorkloadIdentityServiceAccount =
        js_or (env ''GOOGLE_WORKLOADIDENTITY_SERVICEACCOUNT'') ''''\<rparr>"

definition main :: "(string \<rightharpoonup> string) \<Rightarrow> (string \<rightharpoonup> string) \<Rightarrow> stack" where
  "main file env =
     BlueprintMetricsCdkStack ''blueprint-metric-stack'' (config_of_env (dotenv_config file env))"

section \<open>Reading the assembled stack\<close>

fun as_secret :: "construct_id \<times> construct \<Rightarrow> (construct_id \<times> secret_props) option" where
  "as_secret (cid, Secret p) = Some (cid, p)"
| "as_secret _ = None"

fun as_role :: "construct_id \<times> construct \<Rightarrow> (construct_id \<times> role_object) option" where
  "as_role (cid, Role r) = Some (cid, r)"
| "as_role _ = None"

fun as_function :: "construct_id \<times> construct \<Rightarrow> (construct_id \<times> function_props) option" where
  "as_function (cid, Function f) = Some (cid, f)"
| "as_function _ = None"

fun as_function_url :: "construct_id \<times> construct \<Rightarrow> (construct_id \<times> function_url) option" where
  "as_function_url (cid, FunctionUrl u) = Some (cid, u)"
| "as_function_url _ = None"

fun as_rule :: "construct_id \<times> construct \<Rightarrow> (construct_id \<times> rule_props) option" where
  "as_rule (cid, Rule r) = Some (cid, r)"
| "as_rule _ = None"

fun as_output :: "construct_id \<times> construct \<Rightarrow> (construct_id \<times> attr) option" where
  "as_output (cid, CfnOutput v) = Some (cid, v)"
| "as_output _ = None"

definition secrets_of :: "stack \<Rightarrow> (construct_id \<times> secret_props) list" where
  "secrets_of s = List.map_filter as_secret (children s)"

definition roles_of :: "stack \<Rightarrow> (construct_id \<times> role_object) list" where
  "roles_of s = List.map_filter as_role (children s)"

definition functions_of :: "stack \<Rightarrow> (construct_id \<times> function_props) list" where
  "functions_of s = List.map_filter as_function (children s)"

definition function_urls_of :: "stack \<Rightarrow> (construct_id \<times> function_url) list" where
  "function_urls_of s = List.map_filter as_function_url (children s)"

definition rules_of :: "stack \<Rightarrow> (construct_id \<times> rule_props) list" where
  "rules_of s = List.map_filter as_rule (children s)"

definition outputs_of :: "stack \<Rightarrow> (construct_id \<times> attr) list" where
  "outputs_of s = List.map_filter as_output (children s)"

section \<open>The shell running the packaging script\<close>

text \<open>
  The script is one line: simple commands joined by \<^verbatim>\<open>&&\<close> and \<^verbatim>\<open>||\<close>. The shell splits
  the line into words at blanks (no quoted word of the script holds a blank), and the words
  \<^verbatim>\<open>&&\<close> and \<^verbatim>\<open>||\<close> separate the simple commands of the list.
\<close>

fun split_words :: "string \<Rightarrow> string \<Rightarrow> string list" where
  "split_words cur [] = (if cur = [] then [] else [cur])"
| "split_words cur (c # cs) =
     (if c = CHR '' '' then (if cur = [] then split_words [] cs else cur # split_words [] cs)
      else split_words (cur @ [c]) cs)"

type_synonym simple_command = "string list"

datatype connective = AndIf | OrIf

fun and_or :: "simple_command \<Rightarrow> string list \<Rightarrow> simple_command \<times> (connective \<times> simple_command) list" where
  "and_or cur [] = (cur, [])"
| "and_or cur (w # ws) =
     (if w = ''&&'' then (cur, (case and_or [] ws of (c, r) \<Rightarrow> (AndIf, c) # r))
      else if w = ''||'' then (cur, (case and_or [] ws of (c, r) \<Rightarrow> (OrIf, c) # r))
      else and_or (cur @ [w]) ws)"

definition parse_script :: "string \<Rightarrow> simple_command \<times> (connective \<times> simple_command) list" where
  "parse_script script = and_or [] (split_words [] script)"

text \<open>
  The exit status of a simple command, 0 for success. The builtins \<^verbatim>\<open>set\<close> (with the
  options of the script) and \<^verbatim>\<open>true\<close> succeed; the status of every other command is given
  by the world the script runs in.
\<close>

type_synonym world = "simple_command \<Rightarrow> nat"

definition run_simple :: "world \<Rightarrow> simple_command \<Rightarrow> nat" where
  "run_simple w c = (if c = [''true''] then 0 else if take 1 c = [''set''] then 0 else w c)"

text \<open>
  A list is run from left to right, \<^verbatim>\<open>&&\<close> and \<^verbatim>\<open>||\<close> having the same precedence: the
  command after \<^verbatim>\<open>&&\<close> runs when the status so far is 0, the command after \<^verbatim>\<open>||\<close> when it
  is not, and a command that does not run leaves the status as it is. The result is the
  status of the list and the commands that ran, in order. The option \<^verbatim>\<open>errexit\<close> set by the
  first command makes the shell exit when a list fails; a failing command inside a list
  triggers it only when it is the last command of the list, so for a script that is one
  list the status of the script is the status of the list with or without it.
\<close>

fun exec_rest :: "world \<Rightarrow> (connective \<times> simple_command) list \<Rightarrow> nat \<times> simple_command list
    \<Rightarrow> nat \<times> simple_command list" where
  "exec_rest w [] st = st"
| "exec_rest w ((AndIf, c) # r) (status, tr) =
     (if status = 0 then exec_rest w r (run_simple w c, tr @ [c]) else exec_rest w r (status, tr))"
| "exec_rest w ((OrIf, c) # r) (status, tr) =
     (if status \<noteq> 0 then exec_rest w r (run_simple w c, tr @ [c]) else exec_rest w r (status, tr))"

definition bash_c :: "world \<Rightarrow> string \<Rightarrow> nat \<times> simple_command list" where
  "bash_c w script =
     (case parse_script script of (c, r) \<Rightarrow> exec_rest w r (run_simple w c, [c]))"

text \<open>The simple commands of a script, in order.\<close>

definition commands_of :: "string \<Rightarrow> simple_command list" where
  "commands_of script = (case parse_script script of (c, r) \<Rightarrow> c # map snd r)"

text \<open>
  The steps of the packaging script are its commands but the closing \<^verbatim>\<open>true\<close>.
\<close>

definition bundling_step_commands :: "simple_command list" where
  "bundling_step_commands = butlast (commands_of bundling_script)"

text \<open>Two worlds: one where only the last step fails, one where only the installation fails.\<close>

definition pruning_fails :: world where
  "pruning_fails c = (if c = bundling_step_commands ! 5 then 1 else 0)"

definition install_fails :: world where
  "install_fails c = (if c = bundling_step_commands ! 1 then 1 else 0)"

text \<open>A process environment with one variable set, one set to the empty string, one unset.\<close>

definition sample_env :: "string \<rightharpoonup> string" where
  "sample_env =
     [''DISCORD_WEBHOOK_URL'' \<mapsto> ''https://discord.test/hook'',
      ''GITHUB_TOKEN'' \<mapsto> [],
      ''GOOGLE_WORKLOADIDENTITY_AUDIENCE'' \<mapsto> ''aud'']"

section \<open>The entry point builds the configuration from the environment\<close>

lemma js_or_Some: "js_or (Some v) [] = v"
  by (simp add: js_or_def)

lemma js_or_None: "js_or None d = d"
  by (simp add: js_or_def)

text \<open>
  Claim C1. The entry point passes to the stack constructor the configuration built from the
  process environment as it is after the environment file was loaded. For every process
  environment, each of the four fields of that configuration is the value of its variable
  when the variable is set (the empty string included), and the empty string when it is
  unset; a field is a string in every case.
\<close>

theorem config_of_env_fields:
  "main file env0 =
     BlueprintMetricsCdkStack ''blueprint-metric-stack'' (config_of_env (dotenv_config file env0)) \<and>
   (env ''DISCORD_WEBHOOK_URL'' = Some a \<longrightarrow> discordWebhookUrl (config_of_env env) = a) \<and>
   (env ''DISCORD_WEBHOOK_URL'' = None \<longrightarrow> discordWebhookUrl (config_of_env env) = []) \<and>
   (env ''GITHUB_TOKEN'' = Some b \<longrightarrow> githubToken (config_of_env env) = b) \<and>
   (env ''GITHUB_TOKEN'' = None \<longrightarrow> githubToken (config_of_env env) = []) \<and>
   (env ''GOOGLE_WORKLOADIDENTITY_AUDIENCE'' = Some c \<longrightarrow>
      googleWorkloadIdentityAudience (config_of_env env) = c) \<and>
   (env ''GOOGLE_WORKLOADIDENTITY_AUDIENCE'' = None \<longrightarrow>
      googleWorkloadIdentityAudience (config_of_env env) = []) \<and>
   (env ''GOOGLE_WORKLOADIDENTITY_SERVICEACCOUNT'' = Some d \<longrightarrow>
      googleWorkloadIdentityServiceAccount (config_of_env env) = d) \<and>
   (env ''GOOGLE_WORKLOADIDENTITY_SERVICEACCOUNT'' = None \<longrightarrow>
      googleWorkloadIdentityServiceAccount (config_of_env env) = [])"
  by (simp add: main_def config_of_env_def js_or_Some js_or_None)

theorem config_of_env_fields_witness:
  "sample_env ''DISCORD_WEBHOOK_URL'' = Some ''https://discord.test/hook'' \<and>
   discordWebhookUrl (config_of_env sample_env) = ''https://discord.test/hook'' \<and>
   sample_env ''GITHUB_TOKEN'' = Some [] \<and>
   githubToken (config_of_env sample_env) = [] \<and>
   sample_env ''GOOGLE_WORKLOADIDENTITY_AUDIENCE'' = Some ''aud'' \<and>
   googleWorkloadIdentityAudience (config_of_env sample_env) = ''aud'' \<and>
   sample_env ''GOOGLE_WORKLOADIDENTITY_SERVICEACCOUNT'' = None \<and>
   googleWorkloadIdentityServiceAccount (config_of_env sample_env) = []"
  using config_of_env_fields [of Map.empty Map.empty sample_env "''https://discord.test/hook''" "[]"
      "''aud''" "[]"]
  by (simp add: sample_env_def)

section \<open>The assembled stack, computed\<close>

lemma children_BlueprintMetricsCdkStack:
  "children (BlueprintMetricsCdkStack sid props) =
     [(''MetricsConfigSecret'',
       Secret \<lparr>secretName = ''blueprint-metrics-config'',
               secret_description = ''Configuration for Blueprint Metrics Lambda''\<rparr>),
      (''BlueprintMetricsExecutionRole'',
       Role \<lparr>assumedBy = ServicePrincipal ''lambda.amazonaws.com'',
             roleName = ''bp-metrics-role'',
             managedPolicies = [AwsManagedPolicyName ''service-role/AWSLambdaBasicExecutionRole''],
             statements = [\<lparr>actions = [''sts:GetCallerIdentity''], resources = [Plain ''*'']\<rparr>,
                       \<lparr>actions = [''secretsmanager:GetSecretValue'',
                                   ''secretsmanager:DescribeSecret''],
                        resources = [SecretArn ''MetricsConfigSecret'']\<rparr>]\<rparr>),
      (''BlueprintMetricsFunction'',
       Function
         \<lparr>runtime = PYTHON_3_14,
          handler = ''main.handler'',
          role = Some \<lparr>role_id = ''BlueprintMetricsExecutionRole'',
                        role_of = \<lparr>assumedBy = ServicePrincipal ''lambda.amazonaws.com'',
                                    roleName = ''bp-metrics-role'',
                                    managedPolicies =
                                      [AwsManagedPolicyName
                                         ''service-role/AWSLambdaBasicExecutionRole'']\<rparr>\<rparr>,
          functionName = ''bp-metrics-fn'',
          code = FromAsset ''../lambda''
                   \<lparr>bundling_image = BundlingImage PYTHON_3_14, command = bundling_command\<rparr>,
          timeout = Minutes 5,
          memorySize = 1024,
          fn_description = ''Lambda function for Blueprint Metrics'',
          environment =
            [(''PROD'', Plain ''true''),
             (''METRICS_CONFIG_SECRET_ARN'', SecretArn ''MetricsConfigSecret''),
             (''DISCORD_WEBHOOK_URL'', Plain (discordWebhookUrl props)),
             (''GITHUB_TOKEN'', Plain (githubToken props)),
             (''GOOGLE_WORKLOADIDENTITY_AUDIENCE'', Plain (googleWorkloadIdentityAudience props)),
             (''GOOGLE_WORKLOADIDENTITY_SERVICEACCOUNT'',
                Plain (googleWorkloadIdentityServiceAccount props))]\<rparr>),
      (''BlueprintMetricsFunction/FunctionUrl'',
       FunctionUrl \<lparr>authType = NONE,
                    cors = \<lparr>allowedOrigins = [''*''], allowedMethods = [POST]\<rparr>,
                    url_function = ''BlueprintMetricsFunction''\<rparr>),
      (''WeeklyMetricsRule'',
       Rule \<lparr>schedule = Cron \<lparr>minute = Some ''0'', hour = Some ''19'', day = None,
                                month = None, year = None, weekDay = Some ''MON''\<rparr>,
             targets = [LambdaFunction ''BlueprintMetricsFunction'']\<rparr>),
      (''LambdaFunctionName'', CfnOutput (Plain ''bp-metrics-fn'')),
      (''LambdaExecutionRoleName'', CfnOutput (Plain ''bp-metrics-role'')),
      (''MetricsConfigSecretArn'', CfnOutput (SecretArn ''MetricsConfigSecret'')),
      (''LambdaFunctionUrl'', CfnOutput (UrlOf ''BlueprintMetricsFunction/FunctionUrl''))]"
  by (simp add: BlueprintMetricsCdkStack_def new_Stack_def new_Secret_def new_Role_def
      addToPolicy_def new_Function_def grantRead_def addFunctionUrl_def new_Rule_def
      new_CfnOutput_def add_child_def Let_def js_or_def secretArn_def url_def
      role_props.extend_def function_url_options.extend_def)

lemma secrets_of_stack:
  "secrets_of (BlueprintMetricsCdkStack sid props) =
     [(''MetricsConfigSecret'',
       \<lparr>secretName = ''blueprint-metrics-config'',
        secret_description = ''Configuration for Blueprint Metrics Lambda''\<rparr>)]"
  by (simp add: secrets_of_def children_BlueprintMetricsCdkStack List.map_filter_simps)

lemma roles_of_stack:
  "roles_of (BlueprintMetricsCdkStack sid props) =
     [(''BlueprintMetricsExecutionRole'',
       \<lparr>assumedBy = ServicePrincipal ''lambda.amazonaws.com'',
        roleName = ''bp-metrics-role'',
        managedPolicies = [AwsManagedPolicyName ''service-role/AWSLambdaBasicExecutionRole''],
        statements = [\<lparr>actions = [''sts:GetCallerIdentity''], resources = [Plain ''*'']\<rparr>,
                       \<lparr>actions = [''secretsmanager:GetSecretValue'',
                                   ''secretsmanager:DescribeSecret''],
                        resources = [SecretArn ''MetricsConfigSecret'']\<rparr>]\<rparr>)]"
  by (simp add: roles_of_def children_BlueprintMetricsCdkStack List.map_filter_simps)

lemma functions_of_stack:
  "functions_of (BlueprintMetricsCdkStack sid props) =
     [(''BlueprintMetricsFunction'',
       \<lparr>runtime = PYTHON_3_14,
        handler = ''main.handler'',
        role = Some \<lparr>role_id = ''BlueprintMetricsExecutionRole'',
                      role_of = \<lparr>assumedBy = ServicePrincipal ''lambda.amazonaws.com'',
                                  roleName = ''bp-metrics-role'',
                                  managedPolicies =
                                    [AwsManagedPolicyName
                                       ''service-role/AWSLambdaBasicExecutionRole'']\<rparr>\<rparr>,
        functionName = ''bp-metrics-fn'',
        code = FromAsset ''../lambda''
                 \<lparr>bundling_image = BundlingImage PYTHON_3_14, command = bundling_command\<rparr>,
        timeout = Minutes 5,
        memorySize = 1024,
        fn_description = ''Lambda function for Blueprint Metrics'',
        environment =
          [(''PROD'', Plain ''true''),
           (''METRICS_CONFIG_SECRET_ARN'', SecretArn ''MetricsConfigSecret''),
           (''DISCORD_WEBHOOK_URL'', Plain (discordWebhookUrl props)),
           (''GITHUB_TOKEN'', Plain (githubToken props)),
           (''GOOGLE_WORKLOADIDENTITY_AUDIENCE'', Plain (googleWorkloadIdentityAudience props)),
           (''GOOGLE_WORKLOADIDENTITY_SERVICEACCOUNT'',
              Plain (googleWorkloadIdentityServiceAccount props))]\<rparr>)]"
  by (simp add: functions_of_def children_BlueprintMetricsCdkStack List.map_filter_simps)

lemma function_urls_of_stack:
  "function_urls_of (BlueprintMetricsCdkStack sid props) =
     [(''BlueprintMetricsFunction/FunctionUrl'',
       \<lparr>authType = NONE,
        cors = \<lparr>allowedOrigins = [''*''], allowedMethods = [POST]\<rparr>,
        url_function = ''BlueprintMetricsFunction''\<rparr>)]"
  by (simp add: function_urls_of_def children_BlueprintMetricsCdkStack List.map_filter_simps)

lemma rules_of_stack:
  "rules_of (BlueprintMetricsCdkStack sid props) =
     [(''WeeklyMetricsRule'',
       \<lparr>schedule = Cron \<lparr>minute = Some ''0'', hour = Some ''19'', day = None,
                          month = None, year = None, weekDay = Some ''MON''\<rparr>,
        targets = [LambdaFunction ''BlueprintMetricsFunction'']\<rparr>)]"
  by (simp add: rules_of_def children_BlueprintMetricsCdkStack List.map_filter_simps)

lemma outputs_of_stack:
  "outputs_of (BlueprintMetricsCdkStack sid props) =
     [(''LambdaFunctionName'', Plain ''bp-metrics-fn''),
      (''LambdaExecutionRoleName'', Plain ''bp-metrics-role''),
      (''MetricsConfigSecretArn'', SecretArn ''MetricsConfigSecret''),
      (''LambdaFunctionUrl'', UrlOf ''BlueprintMetricsFunction/FunctionUrl'')]"
  by (simp add: outputs_of_def children_BlueprintMetricsCdkStack List.map_filter_simps)

section \<open>Properties of the assembled stack\<close>

text \<open>
  Claim C2. Whatever the configuration (and the stack identifier), the stack assembled by the
  constructor holds exactly one secret, one role, one function, one function URL, one
  schedule rule and four outputs, and nothing else: nine constructs in all.
\<close>

theorem resource_counts:
  "length (secrets_of (BlueprintMetricsCdkStack sid props)) = 1 \<and>
   length (roles_of (BlueprintMetricsCdkStack sid props)) = 1 \<and>
   length (functions_of (BlueprintMetricsCdkStack sid props)) = 1 \<and>
   length (function_urls_of (BlueprintMetricsCdkStack sid props)) = 1 \<and>
   length (rules_of (BlueprintMetricsCdkStack sid props)) = 1 \<and>
   length (outputs_of (BlueprintMetricsCdkStack sid props)) = 4 \<and>
   length (children (BlueprintMetricsCdkStack sid props)) = 9"
  by (simp add: secrets_of_stack roles_of_stack functions_of_stack function_urls_of_stack
      rules_of_stack outputs_of_stack children_BlueprintMetricsCdkStack)

text \<open>
  Claim C3. Whatever the configuration, the one rule of the stack has the cron schedule with
  minute 0, hour 19 and week day MON, the other fields of the schedule left out; the
  schedule is this constant, and the rule targets the function.
\<close>

theorem schedule_rule_fixed:
  "map snd (rules_of (BlueprintMetricsCdkStack sid props)) =
     [\<lparr>schedule = Cron \<lparr>minute = Some ''0'', hour = Some ''19'', day = None, month = None,
                        year = None, weekDay = Some ''MON''\<rparr>,
       targets = [LambdaFunction ''BlueprintMetricsFunction'']\<rparr>]"
  by (simp add: rules_of_stack)

text \<open>
  Claim C4. Whatever the configuration, the one function URL of the stack belongs to the
  function, has authentication type NONE, allows exactly the method POST and exactly the
  origin \<^verbatim>\<open>*\<close>.
\<close>

theorem function_url_public_post:
  "map (\<lambda>(cid, u). (url_function u, authType u, allowedMethods (cors u), allowedOrigins (cors u)))
       (function_urls_of (BlueprintMetricsCdkStack sid props)) =
     [(''BlueprintMetricsFunction'', NONE, [POST], [''*''])] \<and>
   map fst (functions_of (BlueprintMetricsCdkStack sid props)) = [''BlueprintMetricsFunction'']"
  by (simp add: function_urls_of_stack functions_of_stack)

text \<open>
  Claim C5. For all configuration values, the environment declared for the one function of
  the stack has six entries under six different names, and as a map it binds
  DISCORD_WEBHOOK_URL, GITHUB_TOKEN, GOOGLE_WORKLOADIDENTITY_AUDIENCE and
  GOOGLE_WORKLOADIDENTITY_SERVICEACCOUNT to the four configuration values,
  METRICS_CONFIG_SECRET_ARN to the address of the secret of the stack, PROD to the constant
  \<^verbatim>\<open>true\<close>, and no other name.
\<close>

theorem function_environment:
  "\<exists>e sec. map (\<lambda>(cid, f). environment f) (functions_of (BlueprintMetricsCdkStack sid props)) = [e] \<and>
     map fst (secrets_of (BlueprintMetricsCdkStack sid props)) = [sec] \<and>
     length e = 6 \<and> distinct (map fst e) \<and>
     map_of e =
       [''DISCORD_WEBHOOK_URL'' \<mapsto> Plain (discordWebhookUrl props),
        ''GITHUB_TOKEN'' \<mapsto> Plain (githubToken props),
        ''GOOGLE_WORKLOADIDENTITY_AUDIENCE'' \<mapsto> Plain (googleWorkloadIdentityAudience props),
        ''GOOGLE_WORKLOADIDENTITY_SERVICEACCOUNT'' \<mapsto>
           Plain (googleWorkloadIdentityServiceAccount props),
        ''METRICS_CONFIG_SECRET_ARN'' \<mapsto> secretArn sec,
        ''PROD'' \<mapsto> Plain ''true'']"
  by (auto simp add: functions_of_stack secrets_of_stack secretArn_def fun_eq_iff)

text \<open>
  Claim C7, as stated, fails: in the stack assembled for the sample environment the policy
  of the one role holds two statements, not one. The second is the one that granting the
  function read access to the secret adds to the role of the function.
\<close>

theorem execution_role_two_statements:
  "map (length \<circ> statements \<circ> snd)
       (roles_of (BlueprintMetricsCdkStack ''blueprint-metric-stack'' (config_of_env sample_env))) =
     [2]"
  by (simp add: roles_of_stack)

text \<open>
  Claim C7, amended. Whatever the configuration, the one role of the stack has exactly one
  managed policy, the AWS managed policy service-role/AWSLambdaBasicExecutionRole, and
  exactly two statements in its policy: the one the stack definition adds itself, with the
  actions sts:GetCallerIdentity and the resources \<^verbatim>\<open>*\<close>, and the one added by the read
  grant of the secret to the function, with the actions secretsmanager:GetSecretValue and
  secretsmanager:DescribeSecret on the address of the one secret of the stack.
\<close>

theorem execution_role_policies:
  "\<exists>sec. map fst (secrets_of (BlueprintMetricsCdkStack sid props)) = [sec] \<and>
     map (\<lambda>(cid, r). (managedPolicies r, statements r))
         (roles_of (BlueprintMetricsCdkStack sid props)) =
       [([AwsManagedPolicyName ''service-role/AWSLambdaBasicExecutionRole''],
         [\<lparr>actions = [''sts:GetCallerIdentity''], resources = [Plain ''*'']\<rparr>,
          \<lparr>actions = [''secretsmanager:GetSecretValue'', ''secretsmanager:DescribeSecret''],
           resources = [secretArn sec]\<rparr>])]"
  by (simp add: roles_of_stack secrets_of_stack secretArn_def)

text \<open>
  Claim C8. Whatever the configuration, the one function of the stack is declared with
  memory size 1024 and a timeout of 5 minutes.
\<close>

theorem function_memory_timeout:
  "map (\<lambda>(cid, f). (memorySize f, timeout f))
       (functions_of (BlueprintMetricsCdkStack sid props)) = [(1024, Minutes 5)]"
  by (simp add: functions_of_stack)

text \<open>
  Claim C9. Whatever the configuration, the stack declares exactly four outputs; their
  values are, in order, the function name of the one function, the role name of the one
  role, which is the role of that function, the address of the one secret, and the address
  of the one function URL.
\<close>

theorem output_bindings:
  "\<exists>sec r f u.
     secrets_of (BlueprintMetricsCdkStack sid props) = [sec] \<and>
     roles_of (BlueprintMetricsCdkStack sid props) = [r] \<and>
     functions_of (BlueprintMetricsCdkStack sid props) = [f] \<and>
     function_urls_of (BlueprintMetricsCdkStack sid props) = [u] \<and>
     map_option role_id (role (snd f)) = Some (fst r) \<and>
     map fst (outputs_of (BlueprintMetricsCdkStack sid props)) =
       [''LambdaFunctionName'', ''LambdaExecutionRoleName'', ''MetricsConfigSecretArn'',
        ''LambdaFunctionUrl''] \<and>
     map snd (outputs_of (BlueprintMetricsCdkStack sid props)) =
       [Plain (functionName (snd f)), Plain (roleName (snd r)), secretArn (fst sec),
        url (fst u)]"
  by (simp add: secrets_of_stack roles_of_stack functions_of_stack function_urls_of_stack
      outputs_of_stack secretArn_def url_def)

text \<open>
  Claim C10. The value of the role-name output is computed with the empty string as
  fallback. In every stack assembled by the constructor the function has a role, the one
  role created in the stack, whose name is not empty; so the fallback is never taken and the
  output is the fixed role name bp-metrics-role.
\<close>

theorem role_name_output:
  "\<exists>r f.
     roles_of (BlueprintMetricsCdkStack sid props) = [r] \<and>
     functions_of (BlueprintMetricsCdkStack sid props) = [f] \<and>
     map_option role_id (role (snd f)) = Some (fst r) \<and>
     map_option (\<lambda>x. roleName (role_of x)) (role (snd f)) = Some ''bp-metrics-role'' \<and>
     js_or (map_option (\<lambda>x. roleName (role_of x)) (role (snd f))) [] = ''bp-metrics-role'' \<and>
     map_of (outputs_of (BlueprintMetricsCdkStack sid props)) ''LambdaExecutionRoleName'' =
       Some (Plain ''bp-metrics-role'')"
  by (simp add: roles_of_stack functions_of_stack outputs_of_stack js_or_def)

section \<open>The packaging script under the shell\<close>

lemma run_simple_true: "run_simple w [''true''] = 0"
  by (simp add: run_simple_def)

lemma bundling_step_commands_eq:
  "bundling_step_commands =
     [[''set'', ''-euo'', ''pipefail''],
      [''pip'', ''install'', ''-r'', ''requirements.txt'', ''--no-cache-dir'', ''--platform'',
       ''manylinux2014_x86_64'', ''--only-binary=:all:'', ''-t'', ''/asset-output''],
      [''cp'', ''-au'', ''*.py'', ''requirements.txt'', ''/asset-output''],
      [''find'', ''/asset-output'', ''-name'', CHR 0x27 # ''__pycache__'' @ [CHR 0x27], ''-prune'',
       ''-exec'', ''rm'', ''-rf'', ''{}'', ''+''],
      [''find'', ''/asset-output'', ''-name'', CHR 0x27 # ''*.pyc'' @ [CHR 0x27], ''-delete''],
      [''find'', ''/asset-output'', ''-type'', ''d'', [CHR 0x5C, CHR ''(''], ''-name'',
       CHR 0x27 # ''tests'' @ [CHR 0x27], ''-o'', ''-name'', CHR 0x27 # ''test'' @ [CHR 0x27],
       [CHR 0x5C, CHR '')''], ''-prune'', ''-exec'', ''rm'', ''-rf'', ''{}'', ''+'']]"
  unfolding bundling_step_commands_def commands_of_def parse_script_def bundling_script_def
    bundling_steps_def
  by code_simp

lemma bundling_step_commands_length: "length bundling_step_commands = 6"
  by (simp add: bundling_step_commands_eq)

text \<open>
  The script is one list: its steps joined by \<^verbatim>\<open>&&\<close>, closed by \<^verbatim>\<open>|| true\<close>. The
  \<^verbatim>\<open>|| true\<close> written at the end of the last step closes the whole list, not that step alone.
\<close>

lemma bundling_script_parsed:
  "parse_script bundling_script =
     (hd bundling_step_commands,
      map (Pair AndIf) (tl bundling_step_commands) @ [(OrIf, [''true''])])"
  unfolding bundling_step_commands_def commands_of_def parse_script_def bundling_script_def
    bundling_steps_def
  by code_simp

lemma exec_rest_skip:
  "status \<noteq> 0 \<Longrightarrow> exec_rest w (map (Pair AndIf) cs) (status, tr) = (status, tr)"
  by (induction cs) simp_all

lemma exec_rest_append:
  "exec_rest w (xs @ ys) st = exec_rest w ys (exec_rest w xs st)"
  by (induction w xs st rule: exec_rest.induct) simp_all

text \<open>
  A chain of \<^verbatim>\<open>&&\<close> started with status 0 runs its commands up to the first one that fails
  and ends with the status of that one.
\<close>

lemma exec_and_chain:
  "k < length cs \<Longrightarrow> \<forall>j<k. run_simple w (cs ! j) = 0 \<Longrightarrow> run_simple w (cs ! k) \<noteq> 0 \<Longrightarrow>
   exec_rest w (map (Pair AndIf) cs) (0, tr) = (run_simple w (cs ! k), tr @ take (Suc k) cs)"
proof (induction cs arbitrary: k tr)
  case Nil
  then show ?case by simp
next
  case (Cons c cs)
  show ?case
  proof (cases k)
    case 0
    with Cons.prems show ?thesis by (simp add: exec_rest_skip)
  next
    case (Suc k')
    from Cons.prems Suc have c_ok: "run_simple w c = 0" by auto
    from Cons.prems Suc have "k' < length cs" "\<forall>j<k'. run_simple w (cs ! j) = 0"
      "run_simple w (cs ! k') \<noteq> 0" by auto
    from Cons.IH [OF this, of "tr @ [c]"] c_ok Suc show ?thesis by simp
  qed
qed

lemma exec_and_chain_all:
  "\<forall>c \<in> set cs. run_simple w c = 0 \<Longrightarrow>
   exec_rest w (map (Pair AndIf) cs) (0, tr) = (0, tr @ cs)"
  by (induction cs arbitrary: tr) simp_all

lemma exec_rest_first:
  "xs \<noteq> [] \<Longrightarrow>
   exec_rest w (map (Pair AndIf) (tl xs) @ r) (run_simple w (hd xs), [hd xs]) =
   exec_rest w (map (Pair AndIf) xs @ r) (0, [])"
  by (cases xs) simp_all

lemma bash_c_bundling_script:
  "bash_c w bundling_script =
     exec_rest w (map (Pair AndIf) bundling_step_commands @ [(OrIf, [''true''])]) (0, [])"
proof -
  have "bundling_step_commands \<noteq> []" using bundling_step_commands_length by auto
  from exec_rest_first [OF this] show ?thesis
    by (simp add: bash_c_def bundling_script_parsed)
qed

text \<open>
  Whichever step fails first, the script ends with status 0: the closing \<^verbatim>\<open>true\<close> runs
  after the failure of any step, not only of the last one.
\<close>

lemma bash_c_first_failure:
  assumes "k < length bundling_step_commands"
    and "\<forall>j<k. run_simple w (bundling_step_commands ! j) = 0"
    and "run_simple w (bundling_step_commands ! k) \<noteq> 0"
  shows "bash_c w bundling_script = (0, take (Suc k) bundling_step_commands @ [[''true'']])"
  using assms
  by (simp add: bash_c_bundling_script exec_rest_append exec_and_chain run_simple_true)

lemma bash_c_all_succeed:
  assumes "\<forall>c \<in> set bundling_step_commands. run_simple w c = 0"
  shows "bash_c w bundling_script = (0, bundling_step_commands)"
  using assms
  by (simp add: bash_c_bundling_script exec_rest_append exec_and_chain_all)

lemma statuses_install_fails:
  "map (run_simple install_fails) bundling_step_commands = [0, 1, 0, 0, 0, 0]"
  by (simp add: install_fails_def run_simple_def bundling_step_commands_eq)

lemma statuses_pruning_fails:
  "map (run_simple pruning_fails) bundling_step_commands = [0, 0, 0, 0, 0, 1]"
  by (simp add: pruning_fails_def run_simple_def bundling_step_commands_eq)

lemma nth_statuses:
  "map f xs = ys \<Longrightarrow> j < length xs \<Longrightarrow> f (xs ! j) = ys ! j"
  by (metis nth_map)

lemma install_fails_first:
  "\<forall>j<1. run_simple install_fails (bundling_step_commands ! j) = 0"
  using nth_statuses [OF statuses_install_fails] bundling_step_commands_length by simp

lemma install_fails_at: "run_simple install_fails (bundling_step_commands ! 1) \<noteq> 0"
  using nth_statuses [OF statuses_install_fails, of 1] bundling_step_commands_length by simp

lemma pruning_fails_first:
  "\<forall>j<5. run_simple pruning_fails (bundling_step_commands ! j) = 0"
proof (intro allI impI)
  fix j :: nat
  assume "j < 5"
  then consider "j = 0" | "j = 1" | "j = 2" | "j = 3" | "j = 4" by linarith
  then show "run_simple pruning_fails (bundling_step_commands ! j) = 0"
    using nth_statuses [OF statuses_pruning_fails, of j] bundling_step_commands_length
    by cases simp_all
qed

lemma pruning_fails_at: "run_simple pruning_fails (bundling_step_commands ! 5) \<noteq> 0"
  using nth_statuses [OF statuses_pruning_fails, of 5] bundling_step_commands_length by simp

text \<open>
  The closing \<^verbatim>\<open>true\<close> runs whenever the chain before it ended with a failure, so the
  script ends with status 0 in every world: no failure of a step reaches the caller.
\<close>

lemma exec_rest_or_true: "fst (exec_rest w [(OrIf, [''true''])] st) = 0"
  by (cases st) (simp add: run_simple_true)

lemma script_never_fails: "fst (bash_c w bundling_script) = 0"
  by (simp add: bash_c_bundling_script exec_rest_append exec_rest_or_true)

text \<open>
  Without the closing \<^verbatim>\<open>|| true\<close> the same chain of steps ends with the status of the
  first failing step: this is what the \<^verbatim>\<open>&&\<close> of the script and its
  \<^verbatim>\<open>set -euo pipefail\<close> set out to do.
\<close>

lemma chain_without_or_true:
  "fst (exec_rest install_fails (map (Pair AndIf) bundling_step_commands) (0, [])) = 1"
  using exec_and_chain [of 1 bundling_step_commands install_fails "[]"]
    install_fails_first install_fails_at bundling_step_commands_length
    nth_statuses [OF statuses_install_fails, of 1]
  by simp

text \<open>
  The last step failing, every other step succeeding: all six steps run and the script ends
  with status 0. The source writes \<^verbatim>\<open>|| true\<close> on this step to tolerate its failure.
\<close>

lemma pruning_failure_exits_zero:
  "map (run_simple pruning_fails) bundling_step_commands = [0, 0, 0, 0, 0, 1] \<and>
   bash_c pruning_fails bundling_script = (0, bundling_step_commands @ [[''true'']])"
proof -
  have "bash_c pruning_fails bundling_script =
          (0, take (Suc 5) bundling_step_commands @ [[''true'']])"
    using pruning_fails_first pruning_fails_at bundling_step_commands_length
    by (intro bash_c_first_failure) simp_all
  then show ?thesis by (simp add: statuses_pruning_fails bundling_step_commands_length)
qed

text \<open>
  Claim C6. The packaging script is to stop at the first failing step and report the
  failure. The code does not: in the world where the installation of the dependencies ends
  with status 1 and every other step would succeed, the copy of the sources and the three
  pruning steps are skipped, the closing \<^verbatim>\<open>true\<close> runs, and the script ends with status 0,
  a success with an asset that holds neither dependencies nor sources.
\<close>

theorem install_failure_exits_zero:
  "map (run_simple install_fails) bundling_step_commands = [0, 1, 0, 0, 0, 0] \<and>
   bash_c install_fails bundling_script = (0, take 2 bundling_step_commands @ [[''true'']])"
  using bash_c_first_failure [of 1 install_fails] install_fails_first install_fails_at
    bundling_step_commands_length
  by (simp add: numeral_2_eq_2 statuses_install_fails)

end
